theory Spec2Isabelle
  imports Main "HOL-Library.Word"
begin

section \<open>Bytes, little-endian integers, buffers and files\<close>

text \<open>
  The FileGDB layer edits two kinds of binary files in place: the row-offset table
  (\<^verbatim>\<open>.gdbtablx\<close>) and the attribute and spatial indexes (\<^verbatim>\<open>.atx\<close>, \<^verbatim>\<open>.spx\<close>).
  A file and a memory buffer are lists of bytes. A C \<^verbatim>\<open>int\<close> that was decoded from
  four bytes is an \<^typ>\<open>int\<close> in the range of a signed 32-bit value. Arithmetic on a
  C \<^verbatim>\<open>int\<close> wraps around to that range: \<open>to_signed\<close> gives the \<^verbatim>\<open>int\<close> that an
  unbounded result stands for, \<open>to_unsigned\<close> the \<^verbatim>\<open>unsigned\<close> one.
\<close>

definition to_unsigned :: "int \<Rightarrow> int" where
  "to_unsigned x = x mod 4294967296"

definition to_signed :: "int \<Rightarrow> int" where
  "to_signed u = (if u mod 4294967296 < 2147483648 then u mod 4294967296
                  else u mod 4294967296 - 4294967296)"

type_synonym GByte = "8 word"

datatype fault =
  StackExhausted | OutOfBounds | EndIteratorDeref | AssertionFailed | IntegerWrap

text \<open>\<^verbatim>\<open>memcpy(&n, p, 4); CPL_LSBPTR32(&n)\<close>: the signed little-endian value of four bytes.\<close>

fun int32_of_bytes :: "GByte list \<Rightarrow> int" where
  "int32_of_bytes (b0 # b1 # b2 # b3 # _) =
     (let u = uint b0 + 256 * uint b1 + 65536 * uint b2 + 16777216 * uint b3
      in if u < 2147483648 then u else u - 4294967296)"
| "int32_of_bytes _ = 0"

definition bytes_of_int32 :: "int \<Rightarrow> GByte list" where
  "bytes_of_int32 v =
     [word_of_int (v mod 256), word_of_int (v div 256 mod 256),
      word_of_int (v div 65536 mod 256), word_of_int (v div 16777216 mod 256)]"

text \<open>\<^verbatim>\<open>memcpy(buf + off, src, length src)\<close> inside a buffer.\<close>

definition memcpy_at :: "GByte list \<Rightarrow> nat \<Rightarrow> GByte list \<Rightarrow> GByte list" where
  "memcpy_at buf off src = take off buf @ src @ drop (off + length src) buf"

text \<open>
  \<^verbatim>\<open>VSIFSeekL(fp, off, SEEK_SET); VSIFReadL(buf, 1, n, fp)\<close>: the bytes the file has at
  \<open>off\<close>, at most \<open>n\<close> of them (a short read at the end of the file). The offset
  parameter of \<^verbatim>\<open>VSIFSeekL\<close> is unsigned, of 64 bits: a negative \<^verbatim>\<open>int\<close> becomes an offset
  beyond the end of every file, where a read gets nothing and a write fails.
\<close>

definition pread :: "GByte list \<Rightarrow> int \<Rightarrow> nat \<Rightarrow> GByte list" where
  "pread f off n = (if off < 0 then [] else take n (drop (nat off) f))"

text \<open>A read into zeroed memory: what the short read did not fill stays zero.\<close>

definition pread_pad :: "GByte list \<Rightarrow> int \<Rightarrow> nat \<Rightarrow> GByte list" where
  "pread_pad f off n = (let bs = pread f off n in bs @ replicate (n - length bs) 0)"

text \<open>\<^verbatim>\<open>VSIFSeekL(fp, off, SEEK_SET); VSIFWriteL(src, 1, length src, fp)\<close> on a file opened for update.\<close>

definition pwrite :: "GByte list \<Rightarrow> int \<Rightarrow> GByte list \<Rightarrow> GByte list" where
  "pwrite f off src =
     (if off < 0 then f
      else take (nat off) f @ replicate (nat off - length f) 0 @ src
           @ drop (nat off + length src) f)"

fun int32s_of_bytes :: "nat \<Rightarrow> GByte list \<Rightarrow> int list" where
  "int32s_of_bytes 0 bs = []"
| "int32s_of_bytes (Suc n) bs = int32_of_bytes bs # int32s_of_bytes n (drop 4 bs)"

definition bytes_of_int32s :: "int list \<Rightarrow> GByte list" where
  "bytes_of_int32s vs = concat (map bytes_of_int32 vs)"

section \<open>The identifier remap tables\<close>

text \<open>
  \<^verbatim>\<open>m_oMapOGRFIDToFGDBFID\<close> and \<^verbatim>\<open>m_oMapFGDBFIDToOGRFID\<close> are \<^verbatim>\<open>std::map<int, int>\<close>:
  association lists kept in ascending key order. \<^verbatim>\<open>find\<close> is \<^const>\<open>map_of\<close>;
  \<^verbatim>\<open>operator[]\<close> returns the stored value and, for an absent key, first inserts the
  key with the value 0.
\<close>

type_synonym fid_map = "(int \<times> int) list"

definition map_subscript :: "fid_map \<Rightarrow> int \<Rightarrow> int \<times> fid_map" where
  "map_subscript m k =
     (case map_of m k of
        Some v \<Rightarrow> (v, m)
      | None \<Rightarrow> (0, insort_key fst (k, 0) m))"

section \<open>EditATXOrSPX: repairing an index file\<close>

text \<open>
  The state that the recursive \<^verbatim>\<open>EditATXOrSPX\<close> passes by reference, with the open file
  and the member \<^verbatim>\<open>m_oMapFGDBFIDToOGRFID\<close> of the layer (field \<open>oMapFGDBFIDToOGRFID\<close>).
\<close>

record atx_state =
  fp :: "GByte list"
  oMapFGDBFIDToOGRFID :: fid_map
  nLastPageVisited :: int
  pabyLastIndexedValue :: "GByte list"
  bIndexedValueIsValid :: bool
  nFirstIndexAtThisValue :: int
  anPagesAtThisValue :: "int list"
  bSortThisValue :: bool
  bInvalidateIndex :: bool

text \<open>
  \<^verbatim>\<open>qsort(buf + off, n, 4, FGdbLayerSortATX)\<close>: the comparator orders the stored values as
  signed integers, so the sorted block is \<^const>\<open>sort\<close> of the decoded values. A negative
  count or a block outside the buffer is an out-of-bounds access.
\<close>

definition qsort_int32 :: "GByte list \<Rightarrow> int \<Rightarrow> int \<Rightarrow> fault + GByte list" where
  "qsort_int32 buf off n =
     (if off < 0 \<or> n < 0 \<or> int (length buf) < off + 4 * n then Inl OutOfBounds
      else Inr (memcpy_at buf (nat off)
             (bytes_of_int32s (sort (int32s_of_bytes (nat n) (drop (nat off) buf))))))"

text \<open>
  The offsets \<^verbatim>\<open>(page - 1) * 4096 + ...\<close> are computed in \<^verbatim>\<open>int\<close>.
  The first loop over \<^verbatim>\<open>anPagesAtThisValue\<close> of the several-pages branch collects the
  identifiers of the run into \<^verbatim>\<open>anValues\<close>. \<open>gather_chunk\<close> is its body for the page
  \<open>p\<close> at index \<open>j\<close>: \<open>first\<close> tells \<open>j = 0\<close>, \<open>final\<close> tells that \<open>j\<close> is the last
  index. It gives the values read and whether the branch of the current page was taken
  (that branch sets \<^verbatim>\<open>bRewritePage\<close>).
\<close>

definition gather_chunk ::
  "GByte list \<Rightarrow> GByte list \<Rightarrow> int \<Rightarrow> int \<Rightarrow> int \<Rightarrow> bool \<Rightarrow> bool \<Rightarrow> int
   \<Rightarrow> fault + (int list \<times> bool)"
where
  "gather_chunk f abyBuffer nThisPage nFirst nLast first final p =
     (let nFeaturesPrevPage = int32_of_bytes (pread_pad f (to_signed ((p - 1) * 4096 + 4)) 4)
      in if first
         then (if to_signed (nFeaturesPrevPage - nFirst) < 0 then Inl OutOfBounds
               else Inr (int32s_of_bytes (nat (to_signed (nFeaturesPrevPage - nFirst)))
                           (pread_pad f (to_signed ((p - 1) * 4096 + 12 + 4 * nFirst))
                              (4 * nat (to_signed (nFeaturesPrevPage - nFirst)))), False))
         else if final \<and> p = nThisPage
         then (if nLast < 0 then Inl OutOfBounds
               else Inr (int32s_of_bytes (nat nLast) (drop 12 abyBuffer), True))
         else (if nFeaturesPrevPage < 0 then Inl OutOfBounds
               else Inr (int32s_of_bytes (nat nFeaturesPrevPage)
                           (pread_pad f (to_signed ((p - 1) * 4096 + 12))
                              (4 * nat nFeaturesPrevPage)),
                         False)))"

fun gather_values ::
  "GByte list \<Rightarrow> GByte list \<Rightarrow> int \<Rightarrow> int \<Rightarrow> int \<Rightarrow> bool \<Rightarrow> int list
   \<Rightarrow> fault + (int list \<times> bool)"
where
  "gather_values f abyBuffer nThisPage nFirst nLast first [] = Inr ([], False)"
| "gather_values f abyBuffer nThisPage nFirst nLast first (p # ps) =
     (case gather_chunk f abyBuffer nThisPage nFirst nLast first (ps = []) p of
        Inl e \<Rightarrow> Inl e
      | Inr (chunk, b) \<Rightarrow>
          (case gather_values f abyBuffer nThisPage nFirst nLast False ps of
             Inl e \<Rightarrow> Inl e
           | Inr (vs, b') \<Rightarrow> Inr (chunk @ vs, b \<or> b')))"

text \<open>
  The second loop puts the sorted values back to the same places; \<open>scatter_chunk\<close> is
  its body and also gives the values still to be placed. A write to the file that fails
  (\<open>wfail\<close> at its offset) is not noticed by the code and leaves the file as it was.
\<close>

definition scatter_chunk ::
  "(int \<Rightarrow> bool) \<Rightarrow> int \<Rightarrow> int \<Rightarrow> int \<Rightarrow> bool \<Rightarrow> bool \<Rightarrow> int \<Rightarrow> int list
   \<Rightarrow> GByte list \<times> GByte list \<Rightarrow> fault + (int list \<times> GByte list \<times> GByte list)"
where
  "scatter_chunk wfail nThisPage nFirst nLast first final p vs s =
     (case s of (f, abyBuffer) \<Rightarrow>
      let nFeaturesPrevPage = int32_of_bytes (pread_pad f (to_signed ((p - 1) * 4096 + 4)) 4);
          n = (if first then to_signed (nFeaturesPrevPage - nFirst)
               else if final \<and> p = nThisPage then nLast
               else nFeaturesPrevPage);
          src = bytes_of_int32s (take (nat n) vs);
          off = (if first then to_signed ((p - 1) * 4096 + 12 + 4 * nFirst)
                 else to_signed ((p - 1) * 4096 + 12))
      in if n < 0 \<or> int (length vs) < n then Inl OutOfBounds
         else if \<not> first \<and> final \<and> p = nThisPage
         then Inr (drop (nat n) vs, f, memcpy_at abyBuffer 12 src)
         else Inr (drop (nat n) vs, if wfail off then f else pwrite f off src, abyBuffer))"

fun scatter_values ::
  "(int \<Rightarrow> bool) \<Rightarrow> int \<Rightarrow> int \<Rightarrow> int \<Rightarrow> bool \<Rightarrow> int list \<Rightarrow> int list
   \<Rightarrow> GByte list \<times> GByte list \<Rightarrow> fault + (GByte list \<times> GByte list)"
where
  "scatter_values wfail nThisPage nFirst nLast first [] vs s = Inr s"
| "scatter_values wfail nThisPage nFirst nLast first (p # ps) vs s =
     (case scatter_chunk wfail nThisPage nFirst nLast first (ps = []) p vs s of
        Inl e \<Rightarrow> Inl e
      | Inr (vs', s') \<Rightarrow> scatter_values wfail nThisPage nFirst nLast False ps vs' s')"

text \<open>
  The block of the entry loop that sorts the run which ends here: in the page buffer when
  the run began on this page, through the file otherwise. It gives the file, the page
  buffer and \<^verbatim>\<open>bRewritePage\<close>.
\<close>

definition atx_sort_run ::
  "(int \<Rightarrow> bool) \<Rightarrow> int \<Rightarrow> int \<Rightarrow> bool \<Rightarrow> bool \<Rightarrow> int \<Rightarrow> GByte list \<Rightarrow> bool \<Rightarrow> atx_state
   \<Rightarrow> fault + (GByte list \<times> GByte list \<times> bool)"
where
  "atx_sort_run wfail nThisPage nMaxPerPages bNewVal bLast i abyBuffer bRewritePage st =
     (case anPagesAtThisValue st of
        [] \<Rightarrow> Inl OutOfBounds
      | p0 # _ \<Rightarrow>
          if p0 = nThisPage
          then (case qsort_int32 abyBuffer (12 + 4 * nFirstIndexAtThisValue st)
                       (if \<not> bNewVal \<and> bLast
                        then i - nFirstIndexAtThisValue st + 1
                        else i - nFirstIndexAtThisValue st) of
                  Inl e \<Rightarrow> Inl e
                | Inr b \<Rightarrow> Inr (fp st, b, True))
          else
            (let nFeaturesToSortLastPage = (if \<not> bNewVal \<and> bLast then i + 1 else i)
             in case gather_values (fp st) abyBuffer nThisPage (nFirstIndexAtThisValue st)
                       nFeaturesToSortLastPage True (anPagesAtThisValue st) of
                  Inl e \<Rightarrow> Inl e
                | Inr (vs, b) \<Rightarrow>
                    if int (length (anPagesAtThisValue st)) * nMaxPerPages < int (length vs)
                    then Inl OutOfBounds
                    else (case scatter_values wfail nThisPage (nFirstIndexAtThisValue st)
                                 nFeaturesToSortLastPage True (anPagesAtThisValue st)
                                 (sort vs) (fp st, abyBuffer) of
                            Inl e \<Rightarrow> Inl e
                          | Inr (f, b') \<Rightarrow> Inr (f, b', bRewritePage \<or> b))))"

text \<open>
  One turn of the loop over the entries of a leaf page. The result \<open>False\<close> is the
  \<^verbatim>\<open>return FALSE\<close> of the run limit; the page buffer and \<^verbatim>\<open>bRewritePage\<close> are the locals
  of the page.
\<close>

definition atx_entry ::
  "(int \<Rightarrow> bool) \<Rightarrow> int \<Rightarrow> int \<Rightarrow> int \<Rightarrow> int \<Rightarrow> int
   \<Rightarrow> GByte list \<times> bool \<times> atx_state
   \<Rightarrow> fault + (bool \<times> GByte list \<times> bool \<times> atx_state)"
where
  "atx_entry wfail nThisPage nSizeIndexedValue nNextPageID nFeatures i s =
     (case s of (abyBuffer, bRewritePage, st) \<Rightarrow>
      let nMaxPerPages = (4096 - 12) div (4 + nSizeIndexedValue);
          nOffsetFirstValInPage = 12 + nMaxPerPages * 4;
          val = take (nat nSizeIndexedValue)
                  (drop (nat (nOffsetFirstValInPage + i * nSizeIndexedValue)) abyBuffer);
          bNewVal = (\<not> bIndexedValueIsValid st
                     \<or> take (nat nSizeIndexedValue) (pabyLastIndexedValue st) \<noteq> val);
          nFID = int32_of_bytes (drop (nat (12 + 4 * i)) abyBuffer);
          (nOGRFID, m) = map_subscript (oMapFGDBFIDToOGRFID st) nFID;
          bLast = (i = nFeatures - 1 \<and> nNextPageID = 0);
          abyBuffer1 = (if nOGRFID \<noteq> 0
                        then memcpy_at abyBuffer (nat (12 + 4 * i)) (bytes_of_int32 nOGRFID)
                        else abyBuffer);
          bRewritePage1 = (bRewritePage \<or> nOGRFID \<noteq> 0);
          bSort1 = (bSortThisValue st \<or> (nOGRFID \<noteq> 0 \<and> bIndexedValueIsValid st \<and> bLast))
      in case (if bSort1 \<and> (bNewVal \<or> bLast)
               then atx_sort_run wfail nThisPage nMaxPerPages bNewVal bLast i abyBuffer1
                      bRewritePage1 st
               else Inr (fp st, abyBuffer1, bRewritePage1)) of
           Inl e \<Rightarrow> Inl e
         | Inr (f, abyBuffer2, bRewritePage2) \<Rightarrow>
             let st1 = st\<lparr>fp := f, oMapFGDBFIDToOGRFID := m, bSortThisValue := bSort1\<rparr>
             in if bNewVal
                then Inr (True, abyBuffer2, bRewritePage2,
                       st1\<lparr>nFirstIndexAtThisValue := i,
                           anPagesAtThisValue := [nThisPage],
                           pabyLastIndexedValue := val,
                           bSortThisValue := (nOGRFID \<noteq> 0),
                           bIndexedValueIsValid := True\<rparr>)
                else if i = 0 \<and> 100000 < length (anPagesAtThisValue st)
                then Inr (False, abyBuffer2, bRewritePage2, st1\<lparr>bInvalidateIndex := True\<rparr>)
                else Inr (True, abyBuffer2, bRewritePage2,
                       st1\<lparr>anPagesAtThisValue :=
                             (if i = 0 then anPagesAtThisValue st @ [nThisPage]
                              else anPagesAtThisValue st),
                           bSortThisValue := (bSort1 \<or> nOGRFID \<noteq> 0),
                           bIndexedValueIsValid := True\<rparr>))"

fun atx_entries ::
  "(int \<Rightarrow> bool) \<Rightarrow> int \<Rightarrow> int \<Rightarrow> int \<Rightarrow> int \<Rightarrow> int list
   \<Rightarrow> GByte list \<times> bool \<times> atx_state
   \<Rightarrow> fault + (bool \<times> GByte list \<times> bool \<times> atx_state)"
where
  "atx_entries wfail nThisPage nSize nNextPageID nFeatures [] s = Inr (True, s)"
| "atx_entries wfail nThisPage nSize nNextPageID nFeatures (i # is) s =
     (case atx_entry wfail nThisPage nSize nNextPageID nFeatures i s of
        Inl e \<Rightarrow> Inl e
      | Inr (False, s') \<Rightarrow> Inr (False, s')
      | Inr (True, s') \<Rightarrow> atx_entries wfail nThisPage nSize nNextPageID nFeatures is s')"

text \<open>The branch \<^verbatim>\<open>nDepth == 1\<close>: a page that references features.\<close>

definition atx_leaf ::
  "(int \<Rightarrow> bool) \<Rightarrow> int \<Rightarrow> int \<Rightarrow> atx_state \<Rightarrow> fault + (bool \<times> atx_state)"
where
  "atx_leaf wfail nThisPage nSizeIndexedValue st =
     (if nThisPage = nLastPageVisited st then Inr (True, st)
      else
        let off = to_signed ((nThisPage - 1) * 4096);
            abyBuffer = pread (fp st) off 4096
        in if length abyBuffer \<noteq> 4096 then Inr (False, st)
           else
             let nNextPageID = int32_of_bytes abyBuffer;
                 nFeatures = int32_of_bytes (drop 4 abyBuffer);
                 nMaxPerPages = (4096 - 12) div (4 + nSizeIndexedValue)
             in if nFeatures > nMaxPerPages then Inr (False, st)
                else
                  (case atx_entries wfail nThisPage nSizeIndexedValue nNextPageID nFeatures
                          [0 .. nFeatures - 1] (abyBuffer, False, st) of
                     Inl e \<Rightarrow> Inl e
                   | Inr (False, (_, _, st')) \<Rightarrow> Inr (False, st')
                   | Inr (True, (abyBuffer', bRewritePage, st')) \<Rightarrow>
                       if bRewritePage
                       then (if off < 0 \<or> wfail off then Inr (False, st')
                             else Inr (True,
                                    st'\<lparr>fp := pwrite (fp st') off abyBuffer',
                                        nLastPageVisited := nThisPage\<rparr>))
                       else Inr (True, st'\<lparr>nLastPageVisited := nThisPage\<rparr>)))"

text \<open>
  The branch of a page that references other pages, up to its loop: the page is read and
  the child page numbers are decoded. \<open>None\<close> is \<^verbatim>\<open>return FALSE\<close> (a short read, or
  too many sub-pages for a page). \<^verbatim>\<open>nSubPages++\<close> wraps around at \<^verbatim>\<open>INT_MAX\<close>.
\<close>

definition atx_subpage_ids :: "GByte list \<Rightarrow> int \<Rightarrow> int list option" where
  "atx_subpage_ids f nThisPage =
     (let abyBuffer = pread f (to_signed ((nThisPage - 1) * 4096)) 4096
      in if length abyBuffer \<noteq> 4096 then None
         else
           let n = int32_of_bytes (drop 4 abyBuffer);
               nSubPages = (if n = 2147483647 then - 2147483648 else n + 1)
           in if nSubPages > (4096 - 8) div 4 then None
              else Some (int32s_of_bytes (nat nSubPages) (drop 8 abyBuffer)))"

text \<open>
  The recursive walk. Its recursion ends at \<^verbatim>\<open>nDepth == 1\<close>; a depth below 1 in the
  trailer reaches that only after \<^verbatim>\<open>nDepth - 1\<close> has wrapped around, so the depth of the C
  stack is a parameter (the fuel) and \<^const>\<open>StackExhausted\<close> is the result when it is
  used up.
\<close>

fun EditATXOrSPX_page ::
  "nat \<Rightarrow> (int \<Rightarrow> bool) \<Rightarrow> int \<Rightarrow> int \<Rightarrow> int \<Rightarrow> atx_state \<Rightarrow> fault + (bool \<times> atx_state)"
and EditATXOrSPX_subpages ::
  "nat \<Rightarrow> (int \<Rightarrow> bool) \<Rightarrow> int list \<Rightarrow> int \<Rightarrow> int \<Rightarrow> atx_state \<Rightarrow> fault + (bool \<times> atx_state)"
where
  "EditATXOrSPX_page 0 wfail nThisPage nDepth nSize st = Inl StackExhausted"
| "EditATXOrSPX_page (Suc fuel) wfail nThisPage nDepth nSize st =
     (if nDepth = 1 then atx_leaf wfail nThisPage nSize st
      else (case atx_subpage_ids (fp st) nThisPage of
              None \<Rightarrow> Inr (False, st)
            | Some ids \<Rightarrow> EditATXOrSPX_subpages fuel wfail ids nDepth nSize st))"
| "EditATXOrSPX_subpages fuel wfail [] nDepth nSize st = Inr (True, st)"
| "EditATXOrSPX_subpages fuel wfail (nSubPageID # rest) nDepth nSize st =
     (if nSubPageID < 1 then Inr (False, st)
      else (case EditATXOrSPX_page fuel wfail nSubPageID (to_signed (nDepth - 1)) nSize st of
              Inl e \<Rightarrow> Inl e
            | Inr (False, st') \<Rightarrow> Inr (False, st')
            | Inr (True, st') \<Rightarrow> EditATXOrSPX_subpages fuel wfail rest nDepth nSize st'))"

text \<open>
  The entry point on a named file. The file system maps a path to the bytes of the file;
  \<^verbatim>\<open>VSIUnlink\<close> removes the path. The result holds the return value, the file system and
  \<^verbatim>\<open>m_oMapFGDBFIDToOGRFID\<close> after the call. The buffer \<^verbatim>\<open>abyIndexedValue\<close> is not
  initialised in the code; it is not read before the first entry has filled it.
\<close>

type_synonym vfs = "string \<rightharpoonup> GByte list"

definition atx_initial_state :: "GByte list \<Rightarrow> fid_map \<Rightarrow> atx_state" where
  "atx_initial_state f f2o =
     \<lparr>fp = f, oMapFGDBFIDToOGRFID = f2o, nLastPageVisited = 0,
      pabyLastIndexedValue = replicate 255 0, bIndexedValueIsValid = False,
      nFirstIndexAtThisValue = - 1, anPagesAtThisValue = [], bSortThisValue = False,
      bInvalidateIndex = False\<rparr>"

definition EditATXOrSPX ::
  "nat \<Rightarrow> (int \<Rightarrow> bool) \<Rightarrow> string \<Rightarrow> vfs \<times> fid_map \<Rightarrow> fault + (bool \<times> vfs \<times> fid_map)"
where
  "EditATXOrSPX fuel wfail osIndex s =
     (case s of (fs, f2o) \<Rightarrow>
      case fs osIndex of
        None \<Rightarrow> Inr (False, fs, f2o)
      | Some f \<Rightarrow>
          let nPos = int (length f)
          in if \<not> nPos > 22 then Inr (False, fs, f2o)
             else
               let nSizeIndexedValue = uint (hd (pread f (nPos - 22) 1))
               in if \<not> nSizeIndexedValue > 0 then Inr (False, fs, f2o)
                  else
                    let nDepth = int32_of_bytes (pread f (nPos - 22 + 6) 4);
                        st0 = atx_initial_state f f2o
                    in case EditATXOrSPX_page fuel wfail 1 nDepth nSizeIndexedValue st0 of
                         Inl e \<Rightarrow> Inl e
                       | Inr (bRet, st) \<Rightarrow>
                           Inr (bRet,
                                (if bInvalidateIndex st then fs(osIndex := None)
                                 else fs(osIndex \<mapsto> fp st)),
                                oMapFGDBFIDToOGRFID st))"

subsection \<open>Index files for the examples\<close>

text \<open>
  Index pages laid out as the code reads them, for indexed values of one byte: a leaf page
  holds up to 816 entries, so the values start at offset 3276. A page that references
  other pages holds their count minus one and their numbers. The trailer of 22 bytes holds
  the size of the indexed values and the depth of the tree.
\<close>

definition example_leaf_page :: "int \<Rightarrow> int list \<Rightarrow> GByte list \<Rightarrow> GByte list" where
  "example_leaf_page nxt ids vals =
     bytes_of_int32 nxt @ bytes_of_int32 (int (length ids)) @ replicate 4 0
     @ bytes_of_int32s ids @ replicate (4 * (816 - length ids)) 0
     @ vals @ replicate (816 - length vals + 4) 0"

definition example_interior_page :: "int list \<Rightarrow> GByte list" where
  "example_interior_page ids =
     replicate 4 0 @ bytes_of_int32 (int (length ids) - 1)
     @ bytes_of_int32s ids @ replicate (4 * (1022 - length ids)) 0"

definition example_trailer :: "GByte \<Rightarrow> int \<Rightarrow> GByte list" where
  "example_trailer sz depth = sz # replicate 5 0 @ bytes_of_int32 depth @ replicate 12 0"

text \<open>The identifiers a leaf page of the file holds, in the page's order.\<close>

definition leaf_ids :: "GByte list \<Rightarrow> int \<Rightarrow> int list" where
  "leaf_ids f p =
     (let b = pread f ((p - 1) * 4096) 4096
      in int32s_of_bytes (nat (int32_of_bytes (drop 4 b))) (drop 12 b))"

text \<open>One leaf page with the entry (7, A).\<close>

definition example_index_one :: "GByte list" where
  "example_index_one = example_leaf_page 0 [7] [65] @ example_trailer 1 1"

text \<open>One leaf page with the entries (10, A), (20, A), (30, B).\<close>

definition example_index_page :: "GByte list" where
  "example_index_page = example_leaf_page 0 [10, 20, 30] [65, 65, 66] @ example_trailer 1 1"

definition example_index_page_repaired :: "GByte list" where
  "example_index_page_repaired =
     example_leaf_page 0 [5, 10, 30] [65, 65, 66] @ example_trailer 1 1"

text \<open>
  A tree of depth 2: page 1 references the leaf pages 2 and 3; page 2 holds (10, A) and
  (20, A) and is followed by page 3, the last one, which holds (30, A).
\<close>

definition example_index_run :: "GByte list" where
  "example_index_run =
     example_interior_page [2, 3] @ example_leaf_page 3 [10, 20] [65, 65]
     @ example_leaf_page 0 [30] [65] @ example_trailer 1 2"

definition example_index_run_repaired :: "GByte list" where
  "example_index_run_repaired =
     example_interior_page [2, 3] @ example_leaf_page 3 [10, 20] [65, 65]
     @ example_leaf_page 0 [5] [65] @ example_trailer 1 2"

text \<open>An index file cut short: 100 bytes of a page before the trailer.\<close>

definition example_index_truncated :: "GByte list" where
  "example_index_truncated = replicate 100 0 @ example_trailer 1 1"

text \<open>
  A tree of depth 3 that references two leaf pages again and again. The leaf pages 3 and 4
  hold one entry each, (30, A) and (10, A), and name each other as the next page. Page 2
  references them in turn, 1022 times; page 5 does so \<open>c\<close> times; page 1, the root,
  references page 2 97 times and then page 5. The walk comes to a leaf page
  97 * 1022 + \<open>c\<close> times, the first time at page 3, and every entry it finds there goes
  on the run of the value A. \<open>example_cycle_state\<close> is the state of the walk after \<open>n\<close>
  of these visits, from the third on, when the identifier 30 is remapped to 5.
\<close>

definition example_page_of_visit :: "nat \<Rightarrow> int" where
  "example_page_of_visit k = (if even k then 3 else 4)"


definition example_index_cycle_repaired :: "nat \<Rightarrow> GByte list" where
  "example_index_cycle_repaired c =
     example_interior_page (replicate 97 2 @ [5])
     @ example_interior_page (map example_page_of_visit [0 ..< 1022])
     @ example_leaf_page 4 [5] [65]
     @ example_leaf_page 3 [10] [65]
     @ example_interior_page (map example_page_of_visit [0 ..< c])
     @ example_trailer 1 3"

definition example_cycle_state :: "nat \<Rightarrow> nat \<Rightarrow> atx_state" where
  "example_cycle_state c n =
     \<lparr>fp = example_index_cycle_repaired c,
      oMapFGDBFIDToOGRFID = [(5, 0), (10, 0), (30, 5)],
      nLastPageVisited = example_page_of_visit (n - 1),
      pabyLastIndexedValue = [65], bIndexedValueIsValid = True,
      nFirstIndexAtThisValue = 0,
      anPagesAtThisValue = map example_page_of_visit [0 ..< n],
      bSortThisValue = True, bInvalidateIndex = False\<rparr>"

section \<open>EditGDBTablX: rewriting the row-offset table\<close>

text \<open>Division and remainder of C, which truncate towards zero.\<close>

definition cdiv :: "int \<Rightarrow> int \<Rightarrow> int" where
  "cdiv a b = (if 0 \<le> a then a div b else - ((- a) div b))"

definition cmod :: "int \<Rightarrow> int \<Rightarrow> int" where
  "cmod a b = a - b * cdiv a b"

definition GetInt32 :: "GByte list \<Rightarrow> int \<Rightarrow> int" where
  "GetInt32 pBaseAddr iOffset = int32_of_bytes (drop (nat (4 * iOffset)) pBaseAddr)"

text \<open>
  \<^verbatim>\<open>TEST_BIT\<close> and \<^verbatim>\<open>SET_BIT\<close> on a bit array; \<open>None\<close> when the byte lies outside the
  array or the bit number is negative.
\<close>

definition TEST_BIT :: "GByte list \<Rightarrow> int \<Rightarrow> bool option" where
  "TEST_BIT ar b =
     (if 0 \<le> b \<and> nat (b div 8) < length ar
      then Some (bit (ar ! nat (b div 8)) (nat (b mod 8)))
      else None)"

definition SET_BIT :: "GByte list \<Rightarrow> int \<Rightarrow> GByte list option" where
  "SET_BIT ar b =
     (if 0 \<le> b \<and> nat (b div 8) < length ar
      then Some (ar[nat (b div 8) := or (ar ! nat (b div 8)) (push_bit (nat (b mod 8)) 1)])
      else None)"

definition BIT_ARRAY_SIZE_IN_BYTES :: "int \<Rightarrow> int" where
  "BIT_ARRAY_SIZE_IN_BYTES bitsize = cdiv (to_signed (bitsize + 7)) 8"

text \<open>
  The loops that count the blocks present before a block:
  \<^verbatim>\<open>for (j = ...; j < iBlock; j++) nCountBlocksBefore += TEST_BIT(pabyBlockMap, j) != 0\<close>.
\<close>

fun count_set_bits :: "GByte list \<Rightarrow> int list \<Rightarrow> int option" where
  "count_set_bits ar [] = Some 0"
| "count_set_bits ar (j # js) =
     (case TEST_BIT ar j of
        None \<Rightarrow> None
      | Some b \<Rightarrow> map_option (\<lambda>n. (if b then 1 else 0) + n) (count_set_bits ar js))"

text \<open>
  What the call gets from outside: the configuration option
  \<^verbatim>\<open>FILEGDB_DISABLE_SPARSE_PAGES\<close>, whether a write to the new file at a given offset
  fails, whether the allocation of the two output buffers fails, and the bytes that are in
  the memory which the code does not initialise: the buffer \<^verbatim>\<open>abyBuffer\<close> on the stack,
  the block map from \<^verbatim>\<open>CPLMalloc\<close> and the page from \<^verbatim>\<open>VSI_MALLOC_VERBOSE\<close>.
\<close>

record tablx_env =
  bDisableSparsePages :: bool
  new_wfail :: "int \<Rightarrow> bool"
  malloc_fails :: bool
  stack_garbage :: "nat \<Rightarrow> GByte"
  blockmap_garbage :: "nat \<Rightarrow> GByte"
  malloc_garbage :: "nat \<Rightarrow> GByte"

text \<open>The values that stay fixed during the main loop.\<close>

record tablx_ctx =
  fpOld :: "GByte list"
  nRecordSize :: int
  nInMaxFID :: int
  nOutMaxFID :: int
  pabyBlockMap :: "GByte list option"

text \<open>
  The variables of the main loop. An iterator of a \<^verbatim>\<open>std::map\<close> is the rest of the
  association list from its position on; the empty list is \<^verbatim>\<open>end()\<close>.
\<close>

record tablx_state =
  nOffsetInPage :: int
  nLastWrittenOffset :: int
  pabyPage :: "GByte list"
  pabyBlockMapOut :: "GByte list"
  nNonEmptyPages :: int
  oIterO2F :: fid_map
  nNextOGRFID :: int
  oIterF2O :: fid_map
  nNextFGDBFID :: int
  nCountBlocksBeforeIBlockIdx :: int
  nCountBlocksBeforeIBlockValue :: int
  abyBuffer :: "GByte list"
  fpNew :: "GByte list"

text \<open>One of the two loops of \<^verbatim>\<open>UpdateNextOGRFIDAndFGDBFID\<close>, on one iterator.\<close>

fun advance_iter :: "int \<Rightarrow> fid_map \<Rightarrow> int \<Rightarrow> fid_map \<times> int" where
  "advance_iter i [] nNext = ([], nNext)"
| "advance_iter i (kv # rest) nNext =
     (if nNext > 0 \<and> i > nNext
      then (case rest of
              [] \<Rightarrow> ([], - 1)
            | kv' # rest' \<Rightarrow> advance_iter i rest (fst kv'))
      else (kv # rest, nNext))"

definition UpdateNextOGRFIDAndFGDBFID :: "int \<Rightarrow> tablx_state \<Rightarrow> tablx_state" where
  "UpdateNextOGRFIDAndFGDBFID i st =
     (let (itO, nO) = advance_iter i (oIterO2F st) (nNextOGRFID st);
          (itF, nF) = advance_iter i (oIterF2O st) (nNextFGDBFID st)
      in st\<lparr>oIterO2F := itO, nNextOGRFID := nO, oIterF2O := itF, nNextFGDBFID := nF\<rparr>)"

text \<open>
  A read of \<open>n\<close> bytes into a buffer that holds earlier content: what a short read does
  not fill stays as it was.
\<close>

definition read_into :: "GByte list \<Rightarrow> GByte list \<Rightarrow> int \<Rightarrow> nat \<Rightarrow> GByte list" where
  "read_into buf f off n = (let bs = pread f off n in bs @ drop (length bs) buf)"

text \<open>\<^verbatim>\<open>memset(buf + off, 0, n)\<close> inside a buffer.\<close>

definition memset0_at :: "GByte list \<Rightarrow> nat \<Rightarrow> nat \<Rightarrow> GByte list" where
  "memset0_at buf off n = take off buf @ replicate n 0 @ drop (off + n) buf"

text \<open>
  The record at a file offset is read into \<^verbatim>\<open>abyBuffer\<close> and, unless it is all zero,
  copied to the current place of the page, after the gap since the last copy has been
  zeroed. The comparison with \<^verbatim>\<open>abyEmptyOffset\<close> of 6 bytes is out of bounds for a larger
  record size.
\<close>

definition store_record :: "tablx_ctx \<Rightarrow> int \<Rightarrow> tablx_state \<Rightarrow> fault + tablx_state" where
  "store_record C off st =
     (if nRecordSize C < 0 \<or> 6 < nRecordSize C then Inl OutOfBounds
      else
        let n = nat (nRecordSize C);
            buf = read_into (abyBuffer st) (fpOld C) off n
        in if take n buf \<noteq> replicate n 0
           then Inr (st\<lparr>abyBuffer := buf,
                       pabyPage :=
                         memcpy_at
                           (if nLastWrittenOffset st < nOffsetInPage st
                            then memset0_at (pabyPage st) (nat (nLastWrittenOffset st))
                                   (nat (nOffsetInPage st - nLastWrittenOffset st))
                            else pabyPage st)
                           (nat (nOffsetInPage st)) (take n buf),
                       nLastWrittenOffset := to_signed (nOffsetInPage st + nRecordSize C)\<rparr>)
           else Inr (st\<lparr>abyBuffer := buf\<rparr>))"

text \<open>
  The record of the source identifier is looked up in the old file, through the block map
  when the old file has one. The row numbers and the file offset are computed in
  \<^verbatim>\<open>int\<close>.
\<close>

definition copy_record :: "tablx_ctx \<Rightarrow> int \<Rightarrow> tablx_state \<Rightarrow> fault + tablx_state" where
  "copy_record C nSrcFID st =
     (case pabyBlockMap C of
        None \<Rightarrow> store_record C (to_signed (16 + nRecordSize C * (nSrcFID - 1))) st
      | Some bm \<Rightarrow>
          let iBlock = cdiv (to_signed (nSrcFID - 1)) 1024
          in case TEST_BIT bm iBlock of
               None \<Rightarrow> Inl OutOfBounds
             | Some False \<Rightarrow> Inr st
             | Some True \<Rightarrow>
                 (case (if iBlock \<ge> nCountBlocksBeforeIBlockIdx st
                        then map_option (\<lambda>n. nCountBlocksBeforeIBlockValue st + n)
                               (count_set_bits bm
                                  [nCountBlocksBeforeIBlockIdx st .. iBlock - 1])
                        else count_set_bits bm [0 .. iBlock - 1]) of
                    None \<Rightarrow> Inl OutOfBounds
                  | Some nCountBlocksBefore \<Rightarrow>
                      store_record C
                        (to_signed
                           (16 + nRecordSize C
                                 * (nCountBlocksBefore * 1024
                                    + cmod (to_signed (nSrcFID - 1)) 1024)))
                        (st\<lparr>nCountBlocksBeforeIBlockIdx := iBlock,
                            nCountBlocksBeforeIBlockValue := nCountBlocksBefore\<rparr>)))"

text \<open>
  A page goes to the new file: its bit is set, the rest of the page after the last copy is
  zeroed and the page is written as one item of \<^verbatim>\<open>1024 * nRecordSize\<close> bytes. The result
  \<open>False\<close> is the failed write; a write of an item of no bytes gives no item, which the
  code takes as a failure.
\<close>

definition flush_page ::
  "tablx_env \<Rightarrow> tablx_ctx \<Rightarrow> int \<Rightarrow> tablx_state \<Rightarrow> fault + (bool \<times> tablx_state)"
where
  "flush_page E C iBit st =
     (case SET_BIT (pabyBlockMapOut st) iBit of
        None \<Rightarrow> Inl OutOfBounds
      | Some bm \<Rightarrow>
          let nPageSize = to_signed (1024 * nRecordSize C);
              page = (if nLastWrittenOffset st < nPageSize
                      then memset0_at (pabyPage st) (nat (nLastWrittenOffset st))
                             (nat (nPageSize - nLastWrittenOffset st))
                      else pabyPage st);
              st1 = st\<lparr>pabyBlockMapOut := bm, nNonEmptyPages := nNonEmptyPages st + 1,
                       pabyPage := page\<rparr>
          in if nPageSize = 0 \<or> new_wfail E (int (length (fpNew st))) then Inr (False, st1)
             else Inr (True, st1\<lparr>fpNew := fpNew st @ page\<rparr>))"

text \<open>How a turn of the main loop ends.\<close>

datatype tablx_flow =
  Continue int tablx_state
  | Break tablx_state
  | Failed tablx_state

datatype block_flow =
  Proceed int tablx_state
  | Leave tablx_flow

text \<open>
  The start of a turn at the first row of a block (\<^verbatim>\<open>nOffsetInPage == 1024 * nRecordSize\<close>):
  the page of the block before is written when it holds a record, and empty stretches
  are skipped. \<open>Proceed\<close> goes on with the row, \<open>Leave\<close> ends the turn: with the
  \<^verbatim>\<open>continue\<close> after a skipped block, with \<^verbatim>\<open>break\<close>, or with the failed write.
\<close>

definition block_start ::
  "tablx_env \<Rightarrow> tablx_ctx \<Rightarrow> int \<Rightarrow> tablx_state \<Rightarrow> fault + block_flow"
where
  "block_start E C i st =
     (case (if nLastWrittenOffset st > 0 \<or> bDisableSparsePages E
            then flush_page E C (cdiv (to_signed (i - 2)) 1024) st
            else Inr (True, st)) of
        Inl e \<Rightarrow> Inl e
      | Inr (False, st1) \<Rightarrow> Inr (Leave (Failed st1))
      | Inr (True, st1) \<Rightarrow>
          let st2 = st1\<lparr>nOffsetInPage := 0, nLastWrittenOffset := 0\<rparr>
          in if \<not> bDisableSparsePages E \<and> i > nInMaxFID C \<and> nNextOGRFID st2 > 0
                \<and> i < nNextOGRFID st2 - 1024
             then Inr (Proceed (cdiv (nNextOGRFID st2 - 1) 1024 * 1024 + 1) st2)
             else if \<not> bDisableSparsePages E \<and> pabyBlockMap C \<noteq> None \<and> i \<le> nInMaxFID C
             then (case TEST_BIT (the (pabyBlockMap C)) (cdiv (to_signed (i - 1)) 1024) of
                     None \<Rightarrow> Inl OutOfBounds
                   | Some True \<Rightarrow> Inr (Proceed i st2)
                   | Some False \<Rightarrow>
                       let st3 = UpdateNextOGRFIDAndFGDBFID i st2
                       in if (nNextOGRFID st3 < 0 \<or> i < nNextOGRFID st3 - 1024)
                             \<and> (nNextFGDBFID st3 < 0 \<or> i < nNextFGDBFID st3 - 1024)
                          then (if i > 2147483647 - 1024 then Inr (Leave (Break st3))
                                else Inr (Leave (Continue (i + 1023)
                                       (st3\<lparr>nOffsetInPage :=
                                              to_signed (nOffsetInPage st3
                                                         + 1023 * nRecordSize C)\<rparr>))))
                          else Inr (Proceed i st3))
             else Inr (Proceed i st2))"

text \<open>The rest of a turn: the source of row \<open>i\<close> is found and its record copied.\<close>

definition row_step :: "tablx_ctx \<Rightarrow> int \<Rightarrow> tablx_state \<Rightarrow> fault + tablx_flow" where
  "row_step C i st =
     (let st1 = UpdateNextOGRFIDAndFGDBFID i st
      in if i = nNextOGRFID st1
         then (case oIterO2F st1 of
                 [] \<Rightarrow> Inl EndIteratorDeref
               | kv # rest \<Rightarrow>
                   (case copy_record C (snd kv) st1 of
                      Inl e \<Rightarrow> Inl e
                    | Inr st2 \<Rightarrow> Inr (Continue i st2)))
         else if i = nNextFGDBFID st1 \<or> i > nInMaxFID C then Inr (Continue i st1)
         else (case copy_record C i st1 of
                 Inl e \<Rightarrow> Inl e
               | Inr st2 \<Rightarrow> Inr (Continue i st2)))"

definition tablx_body ::
  "tablx_env \<Rightarrow> tablx_ctx \<Rightarrow> int \<Rightarrow> tablx_state \<Rightarrow> fault + tablx_flow"
where
  "tablx_body E C i st =
     (if nOffsetInPage st = to_signed (1024 * nRecordSize C)
      then (case block_start E C i st of
              Inl e \<Rightarrow> Inl e
            | Inr (Proceed i1 st1) \<Rightarrow> row_step C i1 st1
            | Inr (Leave fl) \<Rightarrow> Inr fl)
      else row_step C i st)"

text \<open>
  The main loop, on \<^verbatim>\<open>iUnsigned\<close>, which wraps around as an \<^verbatim>\<open>unsigned\<close> does. With
  \<^verbatim>\<open>nOutMaxFID\<close> at -1 the condition of the loop never fails, so the loop need not end:
  the result \<open>None\<close> stands for a loop that runs forever. In \<open>Some\<close>, the result
  \<open>False\<close> is \<^verbatim>\<open>goto end\<close> with \<^verbatim>\<open>bRet = FALSE\<close>.
\<close>

partial_function (option) tablx_loop ::
  "tablx_env \<Rightarrow> tablx_ctx \<Rightarrow> int \<Rightarrow> tablx_state \<Rightarrow> (fault + (bool \<times> tablx_state)) option"
where
  "tablx_loop E C iUnsigned st =
     (if iUnsigned \<le> to_unsigned (nOutMaxFID C)
      then (case tablx_body E C (to_signed iUnsigned) st of
              Inl e \<Rightarrow> Some (Inl e)
            | Inr (Failed st1) \<Rightarrow> Some (Inr (False, st1))
            | Inr (Break st1) \<Rightarrow> Some (Inr (True, st1))
            | Inr (Continue i1 st1) \<Rightarrow>
                tablx_loop E C (to_unsigned (i1 + 1))
                  (st1\<lparr>nOffsetInPage := to_signed (nOffsetInPage st1 + nRecordSize C)\<rparr>))
      else Some (Inr (True, st)))"

text \<open>
  After the loop: the last page, the trailer, and, when pages were left out, the block map
  and the number of written pages in the header.
\<close>

definition tablx_finish ::
  "tablx_env \<Rightarrow> tablx_ctx \<Rightarrow> int \<Rightarrow> int \<Rightarrow> tablx_state \<Rightarrow> fault + (bool \<times> GByte list)"
where
  "tablx_finish E C n1024BlocksOut nSizeInBytesOut st =
     (case (if nLastWrittenOffset st > 0 \<or> bDisableSparsePages E
            then (if \<not> nOutMaxFID C \<ge> 1 then Inl AssertionFailed
                  else flush_page E C (cdiv (nOutMaxFID C - 1) 1024) st)
            else Inr (True, st)) of
        Inl e \<Rightarrow> Inl e
      | Inr (False, st1) \<Rightarrow> Inr (False, fpNew st1)
      | Inr (True, st1) \<Rightarrow>
          let sparse = (nNonEmptyPages st1 < n1024BlocksOut);
              abyBuffer16 =
                (if sparse then bytes_of_int32 (cdiv nSizeInBytesOut 4) else replicate 4 0)
                @ bytes_of_int32 n1024BlocksOut
                @ bytes_of_int32 (nNonEmptyPages st1)
                @ (if sparse
                   then bytes_of_int32
                          (cdiv (to_signed (cdiv (to_signed (nOutMaxFID C - 1)) 1024 + 31)) 32)
                   else replicate 4 0)
          in if new_wfail E (int (length (fpNew st1))) then Inr (False, fpNew st1)
             else
               let f1 = fpNew st1 @ abyBuffer16
               in if sparse
                  then
                    let f2 = (if new_wfail E (int (length f1)) then f1
                              else f1 @ pabyBlockMapOut st1);
                        f3 = (if new_wfail E 4 then f2
                              else pwrite f2 4 (bytes_of_int32 (nNonEmptyPages st1)))
                    in Inr (True, f3)
                  else Inr (True, f1))"

text \<open>
  The loop before the main loop: identifiers at the end of the old table that were moved
  to an external identifier need no row in the new table.
  \<^verbatim>\<open>for (int i = nInMaxFID; i > nMaxOGRFID; i--)\<close>, on the pair of \<^verbatim>\<open>nOutMaxFID\<close> and
  \<^verbatim>\<open>nInMaxFID\<close>.
\<close>

function trailing_compaction :: "fid_map \<Rightarrow> int \<Rightarrow> int \<Rightarrow> int \<times> int \<Rightarrow> int \<times> int" where
  "trailing_compaction f2o nMaxOGRFID i s =
     (if i > nMaxOGRFID
      then (if map_of f2o i \<noteq> None
            then trailing_compaction f2o nMaxOGRFID (i - 1) (fst s - 1, snd s - 1)
            else s)
      else s)"
  by pat_completeness auto
termination
  by (relation "measure (\<lambda>(f2o, nMaxOGRFID, i, s). nat (i - nMaxOGRFID))") auto

declare trailing_compaction.simps [simp del]

text \<open>
  The block map of the old file. \<^verbatim>\<open>CPLMalloc\<close> gives a null pointer for a size of zero
  and for a size that is negative as an \<^verbatim>\<open>int\<close>; the read that follows then has nowhere
  to put a byte. A read that ends early leaves the rest of the block map as it came from
  \<^verbatim>\<open>CPLMalloc\<close>.
\<close>

definition read_block_map ::
  "tablx_env \<Rightarrow> GByte list \<Rightarrow> int \<Rightarrow> int \<Rightarrow> fault + GByte list option"
where
  "read_block_map E f off nSizeInBytes =
     (if nSizeInBytes = 0 then Inr None
      else if nSizeInBytes < 0
      then (if pread f off 1 = [] then Inr None else Inl OutOfBounds)
      else Inr (Some (read_into (map (blockmap_garbage E) [0 ..< nat nSizeInBytes]) f off
                        (nat nSizeInBytes))))"

text \<open>
  The call on the content of the old file; the result holds the return value and the
  content of the new file. The trailer is looked for by a seek forward from the end of
  the header. Both iterators are dereferenced at \<^verbatim>\<open>begin()\<close> before the loop.
\<close>

definition EditGDBTablX_content ::
  "tablx_env \<Rightarrow> GByte list \<Rightarrow> fid_map \<Rightarrow> fid_map \<Rightarrow> (fault + (bool \<times> GByte list)) option"
where
  "EditGDBTablX_content E f o2f f2o =
     (let abyBuffer0 = read_into (map (stack_garbage E) [0 ..< 16]) f 0 16;
          n1024Blocks = GetInt32 abyBuffer0 1;
          nInMaxFID0 = GetInt32 abyBuffer0 2;
          nRecordSize0 = GetInt32 abyBuffer0 3;
          nMaxOGRFID = foldl (\<lambda>n kv. fst kv) 0 o2f;
          (nOutMaxFID1, nInMaxFID1) =
             trailing_compaction f2o nMaxOGRFID nInMaxFID0 (max nInMaxFID0 nMaxOGRFID, nInMaxFID0);
          n1024BlocksOut = cdiv (nOutMaxFID1 + 1023) 1024;
          abyBuffer1 = take 4 abyBuffer0 @ bytes_of_int32 n1024BlocksOut
                       @ bytes_of_int32 nOutMaxFID1 @ drop 12 abyBuffer0;
          fNew0 = (if new_wfail E 0 then [] else abyBuffer1);
          pos = int (length (pread f 0 16)) + to_signed (1024 * n1024Blocks * nRecordSize0);
          abyBuffer2 = read_into abyBuffer1 f pos 16;
          nBitmapInt32Words = GetInt32 abyBuffer2 0;
          n1024BlocksTotal = GetInt32 abyBuffer2 1;
          nSizeInBytesOut = cdiv (BIT_ARRAY_SIZE_IN_BYTES n1024BlocksOut + 127) 128 * 128
      in case (if nBitmapInt32Words \<noteq> 0
               then read_block_map E f (if pos < 0 then pos else pos + int (length (pread f pos 16)))
                      (BIT_ARRAY_SIZE_IN_BYTES n1024BlocksTotal)
               else Inr None) of
           Inl e \<Rightarrow> Some (Inl e)
         | Inr bm \<Rightarrow>
             if nSizeInBytesOut < 0 \<or> to_signed (1024 * nRecordSize0) < 0 \<or> malloc_fails E
             then Some (Inr (False, fNew0))
             else
               (case (o2f, f2o) of
                  ([], _) \<Rightarrow> Some (Inl EndIteratorDeref)
                | (_, []) \<Rightarrow> Some (Inl EndIteratorDeref)
                | (kvO # _, kvF # _) \<Rightarrow>
                    let C = \<lparr>fpOld = f, nRecordSize = nRecordSize0, nInMaxFID = nInMaxFID1,
                             nOutMaxFID = nOutMaxFID1, pabyBlockMap = bm\<rparr>;
                        st0 = \<lparr>nOffsetInPage = 0, nLastWrittenOffset = 0,
                               pabyPage = map (malloc_garbage E)
                                            [0 ..< nat (to_signed (1024 * nRecordSize0))],
                               pabyBlockMapOut = replicate (nat nSizeInBytesOut) 0,
                               nNonEmptyPages = 0,
                               oIterO2F = o2f, nNextOGRFID = fst kvO,
                               oIterF2O = f2o, nNextFGDBFID = fst kvF,
                               nCountBlocksBeforeIBlockIdx = 0,
                               nCountBlocksBeforeIBlockValue = 0,
                               abyBuffer = abyBuffer2, fpNew = fNew0\<rparr>
                    in case tablx_loop E C 1 st0 of
                         None \<Rightarrow> None
                       | Some (Inl e) \<Rightarrow> Some (Inl e)
                       | Some (Inr (False, st)) \<Rightarrow> Some (Inr (False, fpNew st))
                       | Some (Inr (True, st)) \<Rightarrow>
                           Some (tablx_finish E C n1024BlocksOut nSizeInBytesOut st)))"

text \<open>
  \<^verbatim>\<open>EditGDBTablX\<close> on named files: the old file must open, the new file must be created
  (\<open>create_fails\<close> tells that it cannot). The new file holds what was written, also when
  the call fails.
\<close>

definition EditGDBTablX ::
  "tablx_env \<Rightarrow> bool \<Rightarrow> string \<Rightarrow> string \<Rightarrow> vfs \<times> fid_map \<times> fid_map
   \<Rightarrow> (fault + (bool \<times> vfs)) option"
where
  "EditGDBTablX E create_fails osGDBTablX osNewGDBTablX s =
     (case s of (fs, o2f, f2o) \<Rightarrow>
      case fs osGDBTablX of
        None \<Rightarrow> Some (Inr (False, fs))
      | Some f \<Rightarrow>
          if create_fails then Some (Inr (False, fs))
          else (case EditGDBTablX_content E f o2f f2o of
                  None \<Rightarrow> None
                | Some (Inl e) \<Rightarrow> Some (Inl e)
                | Some (Inr (bRet, fNew)) \<Rightarrow> Some (Inr (bRet, fs(osNewGDBTablX \<mapsto> fNew)))))"

text \<open>
  The record that a reader of a row-offset table finds for a row number. The header holds
  the number of pages in the file, the largest row number and the size of a record; the
  trailer follows the pages and tells whether a block map follows it. With a block map,
  the page of a block is found by counting the blocks present before it. A row number
  outside 1 .. \<^verbatim>\<open>maxIdentifier\<close> and a row of a block that the block map leaves out have
  the absent record, all zero.
\<close>

definition bits_before :: "GByte list \<Rightarrow> int \<Rightarrow> int" where
  "bits_before bm k = int (length (filter (\<lambda>j. TEST_BIT bm j = Some True) [0 .. k - 1]))"

definition tablx_block_map :: "GByte list \<Rightarrow> GByte list option" where
  "tablx_block_map f =
     (let pos = 16 + 1024 * GetInt32 f 1 * GetInt32 f 3;
          trailer = pread_pad f pos 16
      in if GetInt32 trailer 0 \<noteq> 0
         then Some (pread_pad f (pos + 16) (nat (BIT_ARRAY_SIZE_IN_BYTES (GetInt32 trailer 1))))
         else None)"

definition tablx_block_present :: "GByte list \<Rightarrow> int \<Rightarrow> bool" where
  "tablx_block_present f iBlock =
     (case tablx_block_map f of
        None \<Rightarrow> True
      | Some bm \<Rightarrow> TEST_BIT bm iBlock = Some True)"

definition tablx_record :: "GByte list \<Rightarrow> int \<Rightarrow> GByte list" where
  "tablx_record f nFID =
     (let rs = GetInt32 f 3
      in if nFID < 1 \<or> GetInt32 f 2 < nFID then replicate (nat rs) 0
         else
           (case tablx_block_map f of
              None \<Rightarrow> pread_pad f (16 + rs * (nFID - 1)) (nat rs)
            | Some bm \<Rightarrow>
                if TEST_BIT bm ((nFID - 1) div 1024) = Some True
                then pread_pad f
                       (16 + rs * (bits_before bm ((nFID - 1) div 1024) * 1024
                                   + (nFID - 1) mod 1024))
                       (nat rs)
                else replicate (nat rs) 0))"

subsection \<open>Row-offset tables for the examples\<close>



section \<open>Replacing the row-offset table\<close>

text \<open>
  \<^verbatim>\<open>VSIRename\<close> fails when the old path does not exist or when the system refuses the
  move (\<open>denied\<close>); \<^verbatim>\<open>VSIUnlink\<close> fails when the path does not exist. Both return 0 on
  success and -1 on failure.
\<close>

definition VSIRename ::
  "(string \<Rightarrow> string \<Rightarrow> bool) \<Rightarrow> string \<Rightarrow> string \<Rightarrow> vfs \<Rightarrow> int \<times> vfs"
where
  "VSIRename denied oldpath newpath fs =
     (case fs oldpath of
        None \<Rightarrow> (- 1, fs)
      | Some c \<Rightarrow> if denied oldpath newpath then (- 1, fs)
                  else (0, (fs(oldpath := None))(newpath \<mapsto> c)))"

definition VSIUnlink :: "string \<Rightarrow> vfs \<Rightarrow> int \<times> vfs" where
  "VSIUnlink path fs = (case fs path of None \<Rightarrow> (- 1, fs) | Some c \<Rightarrow> (0, fs(path := None)))"


section \<open>DeleteFeature and ISetFeature\<close>













section \<open>Verified properties\<close>

subsection \<open>Replacing the row-offset table\<close>

lemma VSIRename_ok:
  "fs a = Some c \<Longrightarrow> \<not> denied a b \<Longrightarrow> VSIRename denied a b fs = (0, (fs(a := None))(b \<mapsto> c))"
  by (simp add: VSIRename_def)

lemma VSIRename_fails:
  "fs a = None \<or> denied a b \<Longrightarrow> VSIRename denied a b fs = (- 1, fs)"
  by (auto simp: VSIRename_def split: option.splits)

lemma VSIUnlink_gone: "snd (VSIUnlink p fs) p = None"
  by (simp add: VSIUnlink_def split: option.splits)

lemma VSIUnlink_other: "q \<noteq> p \<Longrightarrow> snd (VSIUnlink p fs) q = fs q"
  by (simp add: VSIUnlink_def split: option.splits)

lemma tmp_path_differs: "p @ ''.tmp'' \<noteq> p"
  by simp




subsection \<open>Identifiers that were moved away\<close>




subsection \<open>Rewriting the row-offset table\<close>



lemma length_bytes_of_int32 [simp]: "length (bytes_of_int32 v) = 4"
  by (simp add: bytes_of_int32_def)






subsection \<open>Repairing an index file\<close>

lemma int32s_of_bytes_numeral:
  "int32s_of_bytes (numeral k) bs
   = int32_of_bytes bs # int32s_of_bytes (pred_numeral k) (drop 4 bs)"
  by (simp add: numeral_eq_Suc)

lemma EditATXOrSPX_page_numeral:
  "EditATXOrSPX_page (numeral k) wfail p d sz st
   = EditATXOrSPX_page (Suc (pred_numeral k)) wfail p d sz st"
  by (simp add: numeral_eq_Suc)

lemma atx_initial_state_sel [simp]:
  "fp (atx_initial_state f m) = f" "nLastPageVisited (atx_initial_state f m) = 0"
  "oMapFGDBFIDToOGRFID (atx_initial_state f m) = m"
  "bInvalidateIndex (atx_initial_state f m) = False"
  by (simp_all add: atx_initial_state_def)

lemmas example_pages =
  example_leaf_page_def example_interior_page_def example_trailer_def
  bytes_of_int32_def bytes_of_int32s_def int32s_of_bytes_numeral

text \<open>The invalidation flag is raised by the run limit and by nothing else.\<close>

lemma atx_entry_flag:
  assumes "atx_entry wfail p sz nx nf i (buf, rw, st) = Inr (b, buf', rw', st')"
  shows "(b \<longrightarrow> bInvalidateIndex st' = bInvalidateIndex st)
       \<and> (\<not> b \<longrightarrow> bInvalidateIndex st' \<and> 100000 < length (anPagesAtThisValue st'))"
proof -
  obtain nOGRFID m where ms: "map_subscript (oMapFGDBFIDToOGRFID st) 
      (int32_of_bytes (drop (nat (12 + 4 * i)) buf)) = (nOGRFID, m)"
    by (cases "map_subscript (oMapFGDBFIDToOGRFID st) (int32_of_bytes (drop (nat (12 + 4 * i)) buf))") auto
  show ?thesis
    using assms unfolding atx_entry_def Let_def prod.case ms
    by (auto split: sum.splits prod.splits if_split_asm)
qed

lemma atx_entries_flag:
  assumes "atx_entries wfail p sz nx nf is (buf, rw, st) = Inr (b, buf', rw', st')"
    and "\<not> bInvalidateIndex st"
  shows "(b \<longrightarrow> \<not> bInvalidateIndex st')
       \<and> (bInvalidateIndex st' \<longrightarrow> 100000 < length (anPagesAtThisValue st'))"
  using assms
proof (induction "is" arbitrary: buf rw st)
  case Nil
  then show ?case by simp
next
  case (Cons i "is")
  show ?case
  proof (cases "atx_entry wfail p sz nx nf i (buf, rw, st)")
    case (Inl e)
    with Cons.prems show ?thesis by simp
  next
    case (Inr r)
    obtain b1 buf1 rw1 st1 where r: "r = (b1, buf1, rw1, st1)" by (cases r) auto
    note f = atx_entry_flag[OF Inr[unfolded r]]
    show ?thesis
    proof (cases b1)
      case True
      with Cons.prems Inr r
      have "atx_entries wfail p sz nx nf is (buf1, rw1, st1) = Inr (b, buf', rw', st')" by simp
      moreover from f True Cons.prems have "\<not> bInvalidateIndex st1" by simp
      ultimately show ?thesis by (rule Cons.IH)
    next
      case False
      with Cons.prems Inr r have "b = False" "st' = st1" by simp_all
      with f False show ?thesis by simp
    qed
  qed
qed

lemma atx_leaf_flag:
  assumes "atx_leaf wfail p sz st = Inr (b, st')" and "\<not> bInvalidateIndex st"
  shows "(b \<longrightarrow> \<not> bInvalidateIndex st')
       \<and> (bInvalidateIndex st' \<longrightarrow> 100000 < length (anPagesAtThisValue st'))"
proof (cases "p = nLastPageVisited st
     \<or> length (pread (fp st) (to_signed ((p - 1) * 4096)) 4096) \<noteq> 4096
     \<or> int32_of_bytes (drop 4 (pread (fp st) (to_signed ((p - 1) * 4096)) 4096))
          > (4096 - 12) div (4 + sz)")
  case True
  with assms show ?thesis
    by (auto simp: atx_leaf_def Let_def split: if_split_asm)
next
  case False
  define off where "off = to_signed ((p - 1) * 4096)"
  define buf where "buf = pread (fp st) off 4096"
  define E where "E = atx_entries wfail p sz (int32_of_bytes buf) (int32_of_bytes (drop 4 buf))
                          [0 .. int32_of_bytes (drop 4 buf) - 1] (buf, False, st)"
  from False have c: "(p = nLastPageVisited st) = False" "(length buf \<noteq> 4096) = False"
      "(int32_of_bytes (drop 4 buf) > (4096 - 12) div (4 + sz)) = False"
    by (simp_all add: buf_def off_def)
  have e: "(case E of
                     Inl e \<Rightarrow> Inl e
                   | Inr (False, (_, _, st')) \<Rightarrow> Inr (False, st')
                   | Inr (True, (abyBuffer', bRewritePage, st')) \<Rightarrow>
                       if bRewritePage
                       then (if off < 0 \<or> wfail off then Inr (False, st')
                             else Inr (True,
                                    st'\<lparr>fp := pwrite (fp st') off abyBuffer',
                                        nLastPageVisited := p\<rparr>))
                       else Inr (True, st'\<lparr>nLastPageVisited := p\<rparr>)) = Inr (b, st')"
    using assms(1)
    unfolding atx_leaf_def Let_def off_def[symmetric] buf_def[symmetric] E_def[symmetric] c if_False
    .
  show ?thesis
  proof (cases E)
    case (Inl x)
    with e show ?thesis by simp
  next
    case (Inr r)
    obtain b1 buf1 rw1 st1 where r: "r = (b1, buf1, rw1, st1)" by (cases r) auto
    from atx_entries_flag[OF Inr[unfolded E_def r] assms(2)]
    have f: "(b1 \<longrightarrow> \<not> bInvalidateIndex st1)
       \<and> (bInvalidateIndex st1 \<longrightarrow> 100000 < length (anPagesAtThisValue st1))" .
    from e Inr r f show ?thesis
      by (cases b1) (auto split: if_split_asm)
  qed
qed

lemma subpages_flag_from_page:
  assumes page: "\<And>p d st b st'. EditATXOrSPX_page fuel wfail p d sz st = Inr (b, st')
            \<Longrightarrow> \<not> bInvalidateIndex st
            \<Longrightarrow> (b \<longrightarrow> \<not> bInvalidateIndex st')
                \<and> (bInvalidateIndex st' \<longrightarrow> 100000 < length (anPagesAtThisValue st'))"
    and "EditATXOrSPX_subpages fuel wfail ids d sz st = Inr (b, st')"
    and "\<not> bInvalidateIndex st"
  shows "(b \<longrightarrow> \<not> bInvalidateIndex st')
       \<and> (bInvalidateIndex st' \<longrightarrow> 100000 < length (anPagesAtThisValue st'))"
  using assms(2,3)
proof (induction ids arbitrary: st)
  case Nil
  then show ?case by simp
next
  case (Cons c cs)
  show ?case
  proof (cases "c < 1")
    case True
    with Cons.prems show ?thesis by auto
  next
    case False
    show ?thesis
    proof (cases "EditATXOrSPX_page fuel wfail c (to_signed (d - 1)) sz st")
      case (Inl e)
      with False Cons.prems show ?thesis by simp
    next
      case (Inr r)
      obtain b1 st1 where r: "r = (b1, st1)" by (cases r) auto
      note h = page[OF Inr[unfolded r] Cons.prems(2)]
      show ?thesis
      proof (cases b1)
        case True
        with False Inr r Cons.prems(1)
        have "EditATXOrSPX_subpages fuel wfail cs d sz st1 = Inr (b, st')" by simp
        moreover from h True have "\<not> bInvalidateIndex st1" by simp
        ultimately show ?thesis by (rule Cons.IH)
      next
        case b1: False
        with False Inr r Cons.prems(1) have "b = False" "st' = st1" by simp_all
        with h b1 show ?thesis by simp
      qed
    qed
  qed
qed

lemma page_flag:
  "EditATXOrSPX_page fuel wfail p d sz st = Inr (b, st') \<Longrightarrow> \<not> bInvalidateIndex st \<Longrightarrow>
      (b \<longrightarrow> \<not> bInvalidateIndex st')
      \<and> (bInvalidateIndex st' \<longrightarrow> 100000 < length (anPagesAtThisValue st'))"
proof (induction fuel arbitrary: p d st b st')
  case 0
  then show ?case by simp
next
  case (Suc fuel)
  show ?case
  proof (cases "d = 1")
    case True
    with Suc.prems(1) have "atx_leaf wfail p sz st = Inr (b, st')" by simp
    from atx_leaf_flag[OF this Suc.prems(2)] show ?thesis .
  next
    case False
    show ?thesis
    proof (cases "atx_subpage_ids (fp st) p")
      case None
      with False Suc.prems show ?thesis by auto
    next
      case (Some ids)
      with False Suc.prems(1)
      have "EditATXOrSPX_subpages fuel wfail ids d sz st = Inr (b, st')" by simp
      from subpages_flag_from_page[OF Suc.IH this Suc.prems(2)] show ?thesis by simp
    qed
  qed
qed

lemma EditATXOrSPX_unfold:
  "fs osIndex = Some f \<Longrightarrow> 22 < length f \<Longrightarrow> hd (pread f (int (length f) - 22) 1) = sz
   \<Longrightarrow> 0 < uint sz \<Longrightarrow> int32_of_bytes (pread f (int (length f) - 16) 4) = d \<Longrightarrow>
   EditATXOrSPX fuel wfail osIndex (fs, f2o) =
     (case EditATXOrSPX_page fuel wfail 1 d (uint sz) (atx_initial_state f f2o) of
        Inl e \<Rightarrow> Inl e
      | Inr (bRet, st) \<Rightarrow>
          Inr (bRet, (if bInvalidateIndex st then fs(osIndex := None) else fs(osIndex \<mapsto> fp st)),
               oMapFGDBFIDToOGRFID st))"
  by (simp add: EditATXOrSPX_def Let_def)


text \<open>The example with one entry: the lookup of identifier 7 adds the pair (7, 0).\<close>

lemma one_trailer:
  "length example_index_one = 4118"
  "hd (pread example_index_one 4096 (Suc 0)) = 1"
  "int32_of_bytes (pread example_index_one 4102 4) = 1"
  by (simp_all add: pread_def example_pages example_index_one_def)

lemma one_page:
  "pread example_index_one 0 4096 = example_leaf_page 0 [7] [65]"
  "length (example_leaf_page 0 [7] [65]) = 4096"
  "int32_of_bytes (example_leaf_page 0 [7] [65]) = 0"
  "int32_of_bytes (drop 4 (example_leaf_page 0 [7] [65])) = 1"
  by (simp_all add: pread_def example_pages example_index_one_def)

lemma one_entry:
  "atx_entry wfail 1 1 0 1 0
     (example_leaf_page 0 [7] [65], False, atx_initial_state example_index_one [(9, 5)])
   = Inr (True, example_leaf_page 0 [7] [65], False,
     \<lparr>fp = example_index_one, oMapFGDBFIDToOGRFID = [(7, 0), (9, 5)], nLastPageVisited = 0,
      pabyLastIndexedValue = [65], bIndexedValueIsValid = True, nFirstIndexAtThisValue = 0,
      anPagesAtThisValue = [1], bSortThisValue = False, bInvalidateIndex = False\<rparr>)"
  by (simp add: atx_entry_def atx_initial_state_def example_pages map_subscript_def Let_def)

lemma one_leaf:
  "atx_leaf wfail 1 1 (atx_initial_state example_index_one [(9, 5)])
   = Inr (True,
     \<lparr>fp = example_index_one, oMapFGDBFIDToOGRFID = [(7, 0), (9, 5)], nLastPageVisited = 1,
      pabyLastIndexedValue = [65], bIndexedValueIsValid = True, nFirstIndexAtThisValue = 0,
      anPagesAtThisValue = [1], bSortThisValue = False, bInvalidateIndex = False\<rparr>)"
  by (simp add: atx_leaf_def to_signed_def one_page one_entry Let_def upto.simps)

lemma one_result:
  "EditATXOrSPX 1 wfail ''a.atx'' ([''a.atx'' \<mapsto> example_index_one], [(9, 5)])
   = Inr (True, [''a.atx'' \<mapsto> example_index_one], [(7, 0), (9, 5)])"
  by (simp add: EditATXOrSPX_unfold[where f=example_index_one and sz=1 and d=1]
        one_trailer one_leaf)

text \<open>The example page with the entries (10, A), (20, A), (30, B) and the remap of 20 to 5.\<close>

lemma page_trailer:
  "length example_index_page = 4118"
  "hd (pread example_index_page 4096 (Suc 0)) = 1"
  "int32_of_bytes (pread example_index_page 4102 4) = 1"
  by (simp_all add: pread_def example_pages example_index_page_def)

lemma page_page:
  "pread example_index_page 0 4096 = example_leaf_page 0 [10, 20, 30] [65, 65, 66]"
  "length (example_leaf_page 0 [10, 20, 30] [65, 65, 66]) = 4096"
  "int32_of_bytes (example_leaf_page 0 [10, 20, 30] [65, 65, 66]) = 0"
  "int32_of_bytes (drop 4 (example_leaf_page 0 [10, 20, 30] [65, 65, 66])) = 3"
  by (simp_all add: pread_def example_pages example_index_page_def)

lemma page_entry0:
  "atx_entry wfail 1 1 0 3 0
     (example_leaf_page 0 [10, 20, 30] [65, 65, 66], False,
      atx_initial_state example_index_page [(20, 5)])
   = Inr (True, example_leaf_page 0 [10, 20, 30] [65, 65, 66], False,
     \<lparr>fp = example_index_page, oMapFGDBFIDToOGRFID = [(10, 0), (20, 5)], nLastPageVisited = 0,
      pabyLastIndexedValue = [65], bIndexedValueIsValid = True, nFirstIndexAtThisValue = 0,
      anPagesAtThisValue = [1], bSortThisValue = False, bInvalidateIndex = False\<rparr>)"
  by (simp add: atx_entry_def atx_initial_state_def example_pages map_subscript_def Let_def)

lemma page_entry1:
  "atx_entry wfail 1 1 0 3 1
     (example_leaf_page 0 [10, 20, 30] [65, 65, 66], False,
     \<lparr>fp = example_index_page, oMapFGDBFIDToOGRFID = [(10, 0), (20, 5)], nLastPageVisited = 0,
      pabyLastIndexedValue = [65], bIndexedValueIsValid = True, nFirstIndexAtThisValue = 0,
      anPagesAtThisValue = [1], bSortThisValue = False, bInvalidateIndex = False\<rparr>)
   = Inr (True, example_leaf_page 0 [10, 5, 30] [65, 65, 66], True,
     \<lparr>fp = example_index_page, oMapFGDBFIDToOGRFID = [(10, 0), (20, 5)], nLastPageVisited = 0,
      pabyLastIndexedValue = [65], bIndexedValueIsValid = True, nFirstIndexAtThisValue = 0,
      anPagesAtThisValue = [1], bSortThisValue = True, bInvalidateIndex = False\<rparr>)"
  by (simp add: atx_entry_def example_pages map_subscript_def Let_def memcpy_at_def)

lemma page_entry2:
  "atx_entry wfail 1 1 0 3 2
     (example_leaf_page 0 [10, 5, 30] [65, 65, 66], True,
     \<lparr>fp = example_index_page, oMapFGDBFIDToOGRFID = [(10, 0), (20, 5)], nLastPageVisited = 0,
      pabyLastIndexedValue = [65], bIndexedValueIsValid = True, nFirstIndexAtThisValue = 0,
      anPagesAtThisValue = [1], bSortThisValue = True, bInvalidateIndex = False\<rparr>)
   = Inr (True, example_leaf_page 0 [5, 10, 30] [65, 65, 66], True,
     \<lparr>fp = example_index_page, oMapFGDBFIDToOGRFID = [(10, 0), (20, 5), (30, 0)], nLastPageVisited = 0,
      pabyLastIndexedValue = [66], bIndexedValueIsValid = True, nFirstIndexAtThisValue = 2,
      anPagesAtThisValue = [1], bSortThisValue = False, bInvalidateIndex = False\<rparr>)"
  by (simp add: atx_entry_def atx_sort_run_def example_pages map_subscript_def Let_def
        memcpy_at_def qsort_int32_def)

lemma page_write:
  "pwrite example_index_page 0 (example_leaf_page 0 [5, 10, 30] [65, 65, 66])
   = example_index_page_repaired"
  by (simp add: pwrite_def example_pages example_index_page_def example_index_page_repaired_def)

lemma page_leaf:
  "atx_leaf (\<lambda>off. False) 1 1 (atx_initial_state example_index_page [(20, 5)])
   = Inr (True,
     \<lparr>fp = example_index_page_repaired, oMapFGDBFIDToOGRFID = [(10, 0), (20, 5), (30, 0)], nLastPageVisited = 1,
      pabyLastIndexedValue = [66], bIndexedValueIsValid = True, nFirstIndexAtThisValue = 2,
      anPagesAtThisValue = [1], bSortThisValue = False, bInvalidateIndex = False\<rparr>)"
  by (simp add: atx_leaf_def to_signed_def page_page page_entry0 page_entry1 page_entry2 page_write
        Let_def upto.simps)

text \<open>
  The scenario of the index sort: the page with the entries (10, A), (20, A), (30, B) and
  the remap of 20 to 5 is repaired to (5, A), (10, A), (30, B).
\<close>

lemma index_sort_scenario:
  "EditATXOrSPX 1 (\<lambda>off. False) ''a.atx'' ([''a.atx'' \<mapsto> example_index_page], [(20, 5)])
   = Inr (True, [''a.atx'' \<mapsto> example_index_page_repaired], [(10, 0), (20, 5), (30, 0)])"
  by (simp add: EditATXOrSPX_unfold[where f=example_index_page and sz=1 and d=1]
        page_trailer page_leaf)

lemma index_sort_scenario_ids: "leaf_ids example_index_page_repaired 1 = [5, 10, 30]"
  by (simp add: leaf_ids_def pread_def example_pages example_index_page_repaired_def Let_def)

text \<open>When the write of the repaired page fails, the call fails and the file stays.\<close>

lemma index_write_failure_keeps_file:
  "EditATXOrSPX 1 (\<lambda>off. True) ''a.atx'' ([''a.atx'' \<mapsto> example_index_page], [(20, 5)])
   = Inr (False, [''a.atx'' \<mapsto> example_index_page], [(10, 0), (20, 5), (30, 0)])"
proof -
  have "atx_leaf (\<lambda>off. True) 1 1 (atx_initial_state example_index_page [(20, 5)])
   = Inr (False,
     \<lparr>fp = example_index_page, oMapFGDBFIDToOGRFID = [(10, 0), (20, 5), (30, 0)], nLastPageVisited = 0,
      pabyLastIndexedValue = [66], bIndexedValueIsValid = True, nFirstIndexAtThisValue = 2,
      anPagesAtThisValue = [1], bSortThisValue = False, bInvalidateIndex = False\<rparr>)"
    by (simp add: atx_leaf_def to_signed_def page_page page_entry0 page_entry1 page_entry2
          Let_def upto.simps)
  then show ?thesis
    by (simp add: EditATXOrSPX_unfold[where f=example_index_page and sz=1 and d=1]
          page_trailer)
qed

text \<open>
  The example of depth 2, where the run of the value A goes on from page 2 to the single
  entry of page 3, the last page, and that entry is remapped from 30 to 5.
\<close>

lemma run_trailer:
  "length example_index_run = 12310"
  "hd (pread example_index_run 12288 (Suc 0)) = 1"
  "int32_of_bytes (pread example_index_run 12294 4) = 2"
  by (simp_all add: pread_def example_pages example_index_run_def)

lemma run_subpages: "atx_subpage_ids example_index_run 1 = Some [2, 3]"
  by (simp add: atx_subpage_ids_def to_signed_def pread_def example_pages example_index_run_def Let_def)

lemma run_pages:
  "pread example_index_run 4096 4096 = example_leaf_page 3 [10, 20] [65, 65]"
  "pread example_index_run 8192 4096 = example_leaf_page 0 [30] [65]"
  "length (example_leaf_page 3 [10, 20] [65, 65]) = 4096"
  "int32_of_bytes (example_leaf_page 3 [10, 20] [65, 65]) = 3"
  "int32_of_bytes (drop 4 (example_leaf_page 3 [10, 20] [65, 65])) = 2"
  "length (example_leaf_page 0 [30] [65]) = 4096"
  "int32_of_bytes (example_leaf_page 0 [30] [65]) = 0"
  "int32_of_bytes (drop 4 (example_leaf_page 0 [30] [65])) = 1"
  by (simp_all add: pread_def example_pages example_index_run_def)

lemma run_entry0:
  "atx_entry wfail 2 1 3 2 0
     (example_leaf_page 3 [10, 20] [65, 65], False,
      atx_initial_state example_index_run [(30, 5)])
   = Inr (True, example_leaf_page 3 [10, 20] [65, 65], False,
     \<lparr>fp = example_index_run, oMapFGDBFIDToOGRFID = [(10, 0), (30, 5)], nLastPageVisited = 0,
      pabyLastIndexedValue = [65], bIndexedValueIsValid = True, nFirstIndexAtThisValue = 0,
      anPagesAtThisValue = [2], bSortThisValue = False, bInvalidateIndex = False\<rparr>)"
  by (simp add: atx_entry_def atx_initial_state_def example_pages map_subscript_def Let_def)

lemma run_entry1:
  "atx_entry wfail 2 1 3 2 1
     (example_leaf_page 3 [10, 20] [65, 65], False,
     \<lparr>fp = example_index_run, oMapFGDBFIDToOGRFID = [(10, 0), (30, 5)], nLastPageVisited = 0,
      pabyLastIndexedValue = [65], bIndexedValueIsValid = True, nFirstIndexAtThisValue = 0,
      anPagesAtThisValue = [2], bSortThisValue = False, bInvalidateIndex = False\<rparr>)
   = Inr (True, example_leaf_page 3 [10, 20] [65, 65], False,
     \<lparr>fp = example_index_run, oMapFGDBFIDToOGRFID = [(10, 0), (20, 0), (30, 5)], nLastPageVisited = 0,
      pabyLastIndexedValue = [65], bIndexedValueIsValid = True, nFirstIndexAtThisValue = 0,
      anPagesAtThisValue = [2], bSortThisValue = False, bInvalidateIndex = False\<rparr>)"
  by (simp add: atx_entry_def example_pages map_subscript_def Let_def)

lemma run_leaf2:
  "atx_leaf wfail 2 1 (atx_initial_state example_index_run [(30, 5)])
   = Inr (True,
     \<lparr>fp = example_index_run, oMapFGDBFIDToOGRFID = [(10, 0), (20, 0), (30, 5)], nLastPageVisited = 2,
      pabyLastIndexedValue = [65], bIndexedValueIsValid = True, nFirstIndexAtThisValue = 0,
      anPagesAtThisValue = [2], bSortThisValue = False, bInvalidateIndex = False\<rparr>)"
  by (simp add: atx_leaf_def to_signed_def run_pages run_entry0 run_entry1 Let_def upto.simps)

lemma run_gather:
  "gather_values example_index_run b 3 0 1 True [2] = Inr ([10, 20], False)"
  by (simp add: gather_chunk_def to_signed_def pread_pad_def pread_def example_pages example_index_run_def
        Let_def)

lemma run_scatter:
  "scatter_values (\<lambda>off. False) 3 0 1 True [2] [10, 20] (example_index_run, b)
   = Inr (example_index_run, b)"
  by (simp add: scatter_chunk_def to_signed_def pread_pad_def pread_def pwrite_def example_pages
        example_index_run_def Let_def)

lemma run_entry_last:
  "atx_entry (\<lambda>off. False) 3 1 0 1 0
     (example_leaf_page 0 [30] [65], False,
     \<lparr>fp = example_index_run, oMapFGDBFIDToOGRFID = [(10, 0), (20, 0), (30, 5)], nLastPageVisited = 2,
      pabyLastIndexedValue = [65], bIndexedValueIsValid = True, nFirstIndexAtThisValue = 0,
      anPagesAtThisValue = [2], bSortThisValue = False, bInvalidateIndex = False\<rparr>)
   = Inr (True, example_leaf_page 0 [5] [65], True,
     \<lparr>fp = example_index_run, oMapFGDBFIDToOGRFID = [(10, 0), (20, 0), (30, 5)], nLastPageVisited = 2,
      pabyLastIndexedValue = [65], bIndexedValueIsValid = True, nFirstIndexAtThisValue = 0,
      anPagesAtThisValue = [2, 3], bSortThisValue = True, bInvalidateIndex = False\<rparr>)"
  by (simp add: atx_entry_def atx_sort_run_def run_gather run_scatter map_subscript_def
        Let_def example_pages memcpy_at_def
        del: gather_values.simps scatter_values.simps)

lemma run_write:
  "pwrite example_index_run 8192 (example_leaf_page 0 [5] [65]) = example_index_run_repaired"
  by (simp add: pwrite_def example_pages example_index_run_def example_index_run_repaired_def)

lemma run_leaf3:
  "atx_leaf (\<lambda>off. False) 3 1
     \<lparr>fp = example_index_run, oMapFGDBFIDToOGRFID = [(10, 0), (20, 0), (30, 5)], nLastPageVisited = 2,
      pabyLastIndexedValue = [65], bIndexedValueIsValid = True, nFirstIndexAtThisValue = 0,
      anPagesAtThisValue = [2], bSortThisValue = False, bInvalidateIndex = False\<rparr>
   = Inr (True,
     \<lparr>fp = example_index_run_repaired, oMapFGDBFIDToOGRFID = [(10, 0), (20, 0), (30, 5)], nLastPageVisited = 3,
      pabyLastIndexedValue = [65], bIndexedValueIsValid = True, nFirstIndexAtThisValue = 0,
      anPagesAtThisValue = [2, 3], bSortThisValue = True, bInvalidateIndex = False\<rparr>)"
  by (simp add: atx_leaf_def to_signed_def run_pages run_entry_last run_write Let_def upto.simps)

lemma run_walk:
  "EditATXOrSPX_page 2 (\<lambda>off. False) 1 2 1 (atx_initial_state example_index_run [(30, 5)])
   = Inr (True,
     \<lparr>fp = example_index_run_repaired, oMapFGDBFIDToOGRFID = [(10, 0), (20, 0), (30, 5)], nLastPageVisited = 3,
      pabyLastIndexedValue = [65], bIndexedValueIsValid = True, nFirstIndexAtThisValue = 0,
      anPagesAtThisValue = [2, 3], bSortThisValue = True, bInvalidateIndex = False\<rparr>)"
  by (simp add: EditATXOrSPX_page_numeral to_signed_def run_subpages run_leaf2 run_leaf3)

lemma run_result:
  "EditATXOrSPX 2 (\<lambda>off. False) ''a.atx'' ([''a.atx'' \<mapsto> example_index_run], [(30, 5)])
   = Inr (True, [''a.atx'' \<mapsto> example_index_run_repaired], [(10, 0), (20, 0), (30, 5)])"
  by (simp add: EditATXOrSPX_unfold[where f=example_index_run and sz=1 and d=2]
        run_trailer run_walk del: EditATXOrSPX_page.simps)

lemma run_ids:
  "leaf_ids example_index_run 2 @ leaf_ids example_index_run 3 = [10, 20, 30]"
  "leaf_ids example_index_run_repaired 2 @ leaf_ids example_index_run_repaired 3 = [10, 20, 5]"
  by (simp_all add: leaf_ids_def pread_def example_pages example_index_run_def
        example_index_run_repaired_def Let_def)

text \<open>
  C3 fails on the code. The index holds the run (10, A), (20, A) on page 2 and (30, A) on
  page 3, the last page, and the identifier 30 is remapped to 5. The repair succeeds and
  leaves the identifiers 10, 20, 5 in the run: when the sort is started at the first entry
  of a page, that page is not yet in \<^verbatim>\<open>anPagesAtThisValue\<close>, so the sort takes the
  entries of page 2 only.
\<close>

theorem EditATXOrSPX_last_entry_not_sorted:
  "EditATXOrSPX 2 (\<lambda>off. False) ''a.atx'' ([''a.atx'' \<mapsto> example_index_run], [(30, 5)])
   = Inr (True, [''a.atx'' \<mapsto> example_index_run_repaired], [(10, 0), (20, 0), (30, 5)])
   \<and> leaf_ids example_index_run_repaired 2 @ leaf_ids example_index_run_repaired 3
     = [10, 20, 5]
   \<and> \<not> sorted_wrt (<)
         (leaf_ids example_index_run_repaired 2 @ leaf_ids example_index_run_repaired 3)"
  by (simp add: run_result run_ids)

text \<open>
  C5 fails on the code. \<^verbatim>\<open>EditATXOrSPX\<close> looks identifiers up with \<^verbatim>\<open>operator[]\<close>: for the
  index with the one identifier 7 and the remap table that holds the pair (9, 5), the
  table holds the pairs (7, 0) and (9, 5) after the call.
\<close>

theorem EditATXOrSPX_adds_remap_entries:
  "EditATXOrSPX 1 (\<lambda>off. False) ''a.atx'' ([''a.atx'' \<mapsto> example_index_one], [(9, 5)])
   = Inr (True, [''a.atx'' \<mapsto> example_index_one], [(7, 0), (9, 5)])
   \<and> [(7, 0), (9, 5)] \<noteq> [(9, 5 :: int)]"
  using one_result [of "\<lambda>off. False"] by simp

text \<open>The truncated file: the read of page 1 is short.\<close>

lemma truncated_trailer:
  "length example_index_truncated = 122"
  "hd (pread example_index_truncated 100 (Suc 0)) = 1"
  "int32_of_bytes (pread example_index_truncated 106 4) = 1"
  "length (pread example_index_truncated 0 4096) = 122"
  by (simp_all add: pread_def example_pages example_index_truncated_def)

lemma truncated_result:
  "EditATXOrSPX 1 wfail ''a.atx'' ([''a.atx'' \<mapsto> example_index_truncated], [(9, 5)])
   = Inr (False, [''a.atx'' \<mapsto> example_index_truncated], [(9, 5)])"
  by (simp add: EditATXOrSPX_unfold[where f=example_index_truncated and sz=1 and d=1]
        truncated_trailer atx_leaf_def to_signed_def Let_def)

text \<open>
  C6, as the code has it. \<^verbatim>\<open>EditATXOrSPX\<close> removes the index file exactly when the walk
  ended in the run limit: it returned \<^verbatim>\<open>FALSE\<close> with the invalidation flag raised, at a
  leaf page that continued a run of more than 100000 visited pages. Whenever the file is
  removed the call returns \<^verbatim>\<open>FALSE\<close>. In every other outcome the file is kept; when the
  first page cannot be read in full, the call returns \<^verbatim>\<open>FALSE\<close> and leaves the file system
  and the remap table as they were.
\<close>

theorem EditATXOrSPX_removes_file_only_on_run_limit:
  assumes "EditATXOrSPX fuel wfail osIndex (fs, f2o) = Inr (bRet, fs', f2o')"
    and "fs osIndex = Some f"
  shows "(fs' osIndex = None \<longleftrightarrow>
           22 < length f \<and> 0 < uint (hd (pread f (int (length f) - 22) 1)) \<and>
           (\<exists>st. EditATXOrSPX_page fuel wfail 1 (int32_of_bytes (pread f (int (length f) - 16) 4))
                    (uint (hd (pread f (int (length f) - 22) 1))) (atx_initial_state f f2o)
                  = Inr (False, st)
                \<and> bInvalidateIndex st \<and> 100000 < length (anPagesAtThisValue st)))
       \<and> (fs' osIndex = None \<longrightarrow> \<not> bRet)
       \<and> (length (pread f 0 4096) \<noteq> 4096 \<longrightarrow> \<not> bRet \<and> fs' = fs \<and> f2o' = f2o)"
proof (cases "22 < length f \<and> 0 < uint (hd (pread f (int (length f) - 22) 1))")
  case False
  with assms show ?thesis
    by (auto simp: EditATXOrSPX_def Let_def split: if_split_asm)
next
  case True
  define W where "W = EditATXOrSPX_page fuel wfail 1 (int32_of_bytes (pread f (int (length f) - 16) 4))
                    (uint (hd (pread f (int (length f) - 22) 1))) (atx_initial_state f f2o)"
  from True assms have e: "(case W of Inl e \<Rightarrow> Inl e
      | Inr (bRet, st) \<Rightarrow>
          Inr (bRet, (if bInvalidateIndex st then fs(osIndex := None) else fs(osIndex \<mapsto> fp st)),
               oMapFGDBFIDToOGRFID st)) = Inr (bRet, fs', f2o')"
    by (simp add: EditATXOrSPX_unfold[where f=f and sz="hd (pread f (int (length f) - 22) 1)"] W_def)
  show ?thesis
  proof (cases W)
    case (Inl x)
    with e show ?thesis by simp
  next
    case (Inr r)
    obtain b st where r: "r = (b, st)" by (cases r) auto
    have i: "\<not> bInvalidateIndex (atx_initial_state f f2o)" by (simp add: atx_initial_state_def)
    from page_flag[OF Inr[unfolded W_def r] i]
    have f: "(b \<longrightarrow> \<not> bInvalidateIndex st) \<and> (bInvalidateIndex st \<longrightarrow> 100000 < length (anPagesAtThisValue st))" .
    from e Inr r have fs': "fs' = (if bInvalidateIndex st then fs(osIndex := None) else fs(osIndex \<mapsto> fp st))"
      and b: "bRet = b" and m: "f2o' = oMapFGDBFIDToOGRFID st"
      by simp_all
    have first: "fs' osIndex = None \<longleftrightarrow>
           22 < length f \<and> 0 < uint (hd (pread f (int (length f) - 22) 1)) \<and>
           (\<exists>st. W = Inr (False, st)
                \<and> bInvalidateIndex st \<and> 100000 < length (anPagesAtThisValue st))"
      using True f fs' Inr r by (cases b) auto
    have second: "fs' osIndex = None \<longrightarrow> \<not> bRet"
      using f fs' b by (cases b) auto
    have third: "\<not> bRet \<and> fs' = fs \<and> f2o' = f2o" if short: "length (pread f 0 4096) \<noteq> 4096"
    proof -
      have "W = Inr (False, atx_initial_state f f2o)"
      proof (cases fuel)
        case 0
        with Inr show ?thesis by (simp add: W_def)
      next
        case (Suc n)
        from short show ?thesis
          by (simp add: W_def Suc atx_leaf_def atx_subpage_ids_def to_signed_def Let_def)
      qed
      with Inr r have "b = False" "st = atx_initial_state f f2o" by simp_all
      with fs' b m assms(2) show ?thesis
        by (auto simp: atx_initial_state_def)
    qed
    from first second third show ?thesis unfolding W_def by blast
  qed
qed

theorem EditATXOrSPX_removes_file_only_on_run_limit_witness:
  "[''a.atx'' \<mapsto> example_index_truncated] ''a.atx'' \<noteq> None
   \<and> \<not> (22 < length example_index_truncated
        \<and> 0 < uint (hd (pread example_index_truncated
                      (int (length example_index_truncated) - 22) 1))
        \<and> (\<exists>st. EditATXOrSPX_page 1 (\<lambda>off. False) 1
                   (int32_of_bytes (pread example_index_truncated
                      (int (length example_index_truncated) - 16) 4))
                   (uint (hd (pread example_index_truncated
                      (int (length example_index_truncated) - 22) 1)))
                   (atx_initial_state example_index_truncated [(9, 5)])
                 = Inr (False, st)
               \<and> bInvalidateIndex st \<and> 100000 < length (anPagesAtThisValue st)))
   \<and> length (pread example_index_truncated 0 4096) \<noteq> 4096"
  using EditATXOrSPX_removes_file_only_on_run_limit
          [OF truncated_result [of "\<lambda>off. False"], of example_index_truncated]
  by (simp add: truncated_trailer)

text \<open>
  C6 as stated fails: the index file is cut short, the read of its page fails, the call
  returns \<^verbatim>\<open>FALSE\<close> and the file is still there.
\<close>

theorem EditATXOrSPX_read_failure_keeps_file_counterexample:
  "EditATXOrSPX 1 (\<lambda>off. False) ''a.atx'' ([''a.atx'' \<mapsto> example_index_truncated], [(9, 5)])
   = Inr (False, [''a.atx'' \<mapsto> example_index_truncated], [(9, 5)])"
  by (rule truncated_result)


lemma length_bytes_of_int32s [simp]: "length (bytes_of_int32s vs) = 4 * length vs"
  by (induction vs) (simp_all add: bytes_of_int32s_def)























lemma cycle_state_sel [simp]:
  "fp (example_cycle_state c n) = example_index_cycle_repaired c"
  "oMapFGDBFIDToOGRFID (example_cycle_state c n) = [(5, 0), (10, 0), (30, 5)]"
  "bInvalidateIndex (example_cycle_state c n) = False"
  by (simp_all add: example_cycle_state_def)












end
